theory Spec2Isabelle
  imports Main "HOL-Library.Word"
begin

unbundle bit_operations_syntax

section \<open>The T3x updater (t3xupdate.py)\<close>

text \<open>
  A shallow embedding of the class \<open>T3XUpdater\<close>. Python \<open>bytes\<close> values are lists of
  8-bit characters, Python integers are \<open>nat\<close> where they cannot be negative and \<open>int\<close>
  where a subtraction could go below zero. Output of \<open>debug\<close> and \<open>print\<close> (the progress
  percentage) has no influence on the control flow and is left out; the messages of
  \<open>info\<close>, \<open>warning\<close> and \<open>error\<close> are kept, one constructor for each call site.
\<close>

subsection \<open>Byte strings\<close>

type_synonym bytes = "char list"

text \<open>\<open>file.seek(off); file.read(n)\<close>: a read past the end of the file is short or empty.\<close>

definition read_at :: "bytes \<Rightarrow> nat \<Rightarrow> nat \<Rightarrow> bytes" where
  "read_at f off n = take n (drop off f)"

text \<open>\<open>int.from_bytes(bs, "big")\<close>; the empty byte string gives 0.\<close>

definition from_bytes_big :: "bytes \<Rightarrow> nat" where
  "from_bytes_big bs = foldl (\<lambda>a b. a * 256 + of_char b) 0 bs"

text \<open>\<open>bs.rstrip(c)\<close> for a single byte \<open>c\<close>.\<close>

definition rstrip :: "char \<Rightarrow> bytes \<Rightarrow> bytes" where
  "rstrip c bs = rev (dropWhile (\<lambda>x. x = c) (rev bs))"

text \<open>\<open>bs.split(c)\<close> for a single byte \<open>c\<close>: never the empty list.\<close>

fun split_on :: "char \<Rightarrow> bytes \<Rightarrow> bytes list" where
  "split_on c [] = [[]]"
| "split_on c (x # xs) =
     (if x = c then [] # split_on c xs
      else (case split_on c xs of
              [] \<Rightarrow> [[x]]
            | r # rs \<Rightarrow> (x # r) # rs))"

text \<open>
  \<open>bs.decode()\<close> raises \<open>UnicodeDecodeError\<close> unless the bytes are well-formed UTF-8
  (no overlong forms, no surrogates, nothing above U+10FFFF). \<open>utf8_ok\<close> works on
  the byte values.
\<close>

definition cont_byte :: "nat \<Rightarrow> bool" where
  "cont_byte b \<longleftrightarrow> 0x80 \<le> b \<and> b \<le> 0xBF"

fun utf8_ok :: "nat list \<Rightarrow> bool" where
  "utf8_ok [] = True"
| "utf8_ok (b0 # bs) =
     (if b0 < 0x80 then utf8_ok bs
      else if 0xC2 \<le> b0 \<and> b0 \<le> 0xDF then
        (case bs of b1 # r \<Rightarrow> cont_byte b1 \<and> utf8_ok r | _ \<Rightarrow> False)
      else if 0xE0 \<le> b0 \<and> b0 \<le> 0xEF then
        (case bs of
           b1 # b2 # r \<Rightarrow>
             cont_byte b1 \<and> cont_byte b2
             \<and> (b0 = 0xE0 \<longrightarrow> 0xA0 \<le> b1) \<and> (b0 = 0xED \<longrightarrow> b1 \<le> 0x9F)
             \<and> utf8_ok r
         | _ \<Rightarrow> False)
      else if 0xF0 \<le> b0 \<and> b0 \<le> 0xF4 then
        (case bs of
           b1 # b2 # b3 # r \<Rightarrow>
             cont_byte b1 \<and> cont_byte b2 \<and> cont_byte b3
             \<and> (b0 = 0xF0 \<longrightarrow> 0x90 \<le> b1) \<and> (b0 = 0xF4 \<longrightarrow> b1 \<le> 0x8F)
             \<and> utf8_ok r
         | _ \<Rightarrow> False)
      else False)"

definition decodable :: "bytes \<Rightarrow> bool" where
  "decodable bs = utf8_ok (map of_char bs)"

subsection \<open>The checksum\<close>

text \<open>
  Modelled from the spec: the function that the library call
  \<open>crcmod.mkCrcFun(0x18005, rev=True, initCrc=0xFFFF, xorOut=0x0000)\<close> returns; the
  library is not part of the repository. The spec describes it as the CRC-16 with
  polynomial 0x8005 in reflected form (0xA001), initial value 0xFFFF, input and output
  reflected, no final XOR. It is written bit by bit: each byte is XORed into the low
  half of the register, which is then shifted right eight times, the reflected
  polynomial being XORed in whenever a 1 falls out.
\<close>

definition crc16_shift :: "16 word \<Rightarrow> 16 word" where
  "crc16_shift c = (if bit c 0 then drop_bit 1 c XOR 0xA001 else drop_bit 1 c)"

definition crc16_byte :: "16 word \<Rightarrow> char \<Rightarrow> 16 word" where
  "crc16_byte c b = (crc16_shift ^^ 8) (c XOR of_char b)"

definition crc16fn :: "bytes \<Rightarrow> nat" where
  "crc16fn bs = unat (foldl crc16_byte 0xFFFF bs)"

subsection \<open>Exceptions and log messages\<close>

datatype exn = SerialException | SystemExit | IndexError | UnicodeDecodeError

datatype msg =
    E_multiple_attached
  | E_none_found
  | E_wrong_firmware_file
  | E_bad_file_size
  | E_checksum_mismatch nat nat
  | I_update bytes bytes nat
  | I_enter_bootloader
  | W_reset_disconnect
  | W_no_reset_ack
  | E_could_not_enter_bootloader
  | E_product_mismatch bytes bytes
  | I_bl_version bytes
  | E_no_update_start_ack
  | E_update_failed
  | W_tail_disconnect
  | I_update_successful

subsection \<open>parse_update\<close>

text \<open>
  \<open>parse_update\<close> on the contents \<open>f\<close> of the file (the file is taken to exist and to be
  readable; \<open>os.stat(file).st_size\<close> is \<open>length f\<close>). The result is the list of messages
  logged and either an exception or the returned triple. The two \<open>decode\<close> calls of the
  f-string passed to \<open>info\<close> are evaluated before \<open>info\<close> is called, product first.
\<close>

definition parse_update ::
  "bytes \<Rightarrow> msg list \<times> (exn + (bytes option \<times> bytes option \<times> nat))" where
  "parse_update f =
     (if read_at f 0 4 \<noteq> ''JCID'' then
        ([E_wrong_firmware_file], Inr (None, None, 0))
      else
        let file_size = length f;
            fw_size = from_bytes_big (read_at f 0x60 4) + 0x100
        in
        if file_size \<noteq> fw_size then ([E_bad_file_size], Inr (None, None, 0))
        else
          let csum_file = from_bytes_big (read_at f 0x64 2);
              csum_calc = crc16fn (drop 0x100 f)
          in
          if csum_calc \<noteq> csum_file then
            ([E_checksum_mismatch csum_file csum_calc], Inr (None, None, 0))
          else
            let fw_product = last (split_on CHR ''_'' (rstrip (CHR 0xFF) (read_at f 0x20 16)));
                fw_version0 = read_at f 0x40 4;
                fw_version = (if fw_version0 = ''vers'' then read_at f 0x47 4 else fw_version0)
            in
            if \<not> decodable fw_product \<or> \<not> decodable fw_version then
              ([], Inl UnicodeDecodeError)
            else
              ([I_update fw_product fw_version file_size],
               Inr (Some fw_product, Some fw_version, file_size)))"

subsection \<open>The serial port and the session\<close>

text \<open>
  The serial library, the list of ports and the clock are outside the repository: they
  are a parameter, a record of deterministic operations on a state \<open>'w\<close> of the outside
  world (device included). Every operation returns the next state of the world; a
  pyserial call that raises \<open>serial.serialutil.SerialException\<close> returns \<open>False\<close>,
  \<open>None\<close> or \<open>LinkLost\<close>. \<open>ser_read1\<close> is \<open>read(1)\<close> under the 3 second timeout of the
  port: one byte, or nothing when the timeout expires.
\<close>

datatype read1 = LinkLost | TimedOut | Byte char

record 'w env =
  comports :: "'w \<Rightarrow> (string \<times> string option) list"
  serial_open :: "'w \<Rightarrow> string \<Rightarrow> 'w \<times> bool"
  ser_write :: "'w \<Rightarrow> bytes \<Rightarrow> 'w \<times> bool"
  ser_read1 :: "'w \<Rightarrow> 'w \<times> read1"
  ser_read_all :: "'w \<Rightarrow> 'w \<times> bytes option"
  time_sleep :: "'w \<Rightarrow> nat \<Rightarrow> 'w"

text \<open>
  What the updater does to the outside is recorded in order: a call that opens a port,
  a call that writes a request (recorded whether or not the call raises), a sleep, a
  logged message.
\<close>

datatype event = Connect string | Tx bytes | Sleep nat | Log msg

record 'w session =
  world :: 'w
  events :: "event list"


type_synonym ('w, 'a) prog = "'w session \<Rightarrow> 'w session \<times> (exn + 'a)"

definition ret :: "'a \<Rightarrow> ('w, 'a) prog" where
  "ret x s = (s, Inr x)"

definition raise :: "exn \<Rightarrow> ('w, 'a) prog" where
  "raise e s = (s, Inl e)"

text \<open>Sequencing: an exception of the first statement skips the rest.\<close>

definition bnd :: "('w, 'a) prog \<Rightarrow> ('a \<Rightarrow> ('w, 'b) prog) \<Rightarrow> ('w, 'b) prog" where
  "bnd m k s = (case m s of (s1, Inl e) \<Rightarrow> (s1, Inl e) | (s1, Inr x) \<Rightarrow> k x s1)"

definition emit :: "event \<Rightarrow> 'w session \<Rightarrow> 'w session" where
  "emit e s = s\<lparr>events := events s @ [e]\<rparr>"

definition say :: "msg \<Rightarrow> ('w, unit) prog" where
  "say m s = (emit (Log m) s, Inr ())"

definition sleep :: "'w env \<Rightarrow> nat \<Rightarrow> ('w, unit) prog" where
  "sleep E n s = (emit (Sleep n) (s\<lparr>world := time_sleep E (world s) n\<rparr>), Inr ())"

definition get_port :: "'w env \<Rightarrow> ('w, string) prog" where
  "get_port E s =
     (let ports = map fst (filter
            (\<lambda>p. case snd p of None \<Rightarrow> False | Some n \<Rightarrow> n \<noteq> [] \<and> take 7 n = ''JCID_T3'')
            (comports E (world s)))
      in if length ports > 1 then (emit (Log E_multiple_attached) s, Inl SystemExit)
         else if ports = [] then (emit (Log E_none_found) s, Inl SystemExit)
         else (s, Inr (hd ports)))"

definition connect :: "'w env \<Rightarrow> ('w, unit) prog" where
  "connect E s =
     (case get_port E s of
        (s1, Inl e) \<Rightarrow> (s1, Inl e)
      | (s1, Inr port) \<Rightarrow>
          (case serial_open E (world s1) port of
             (w, opened) \<Rightarrow>
               (emit (Connect port) (s1\<lparr>world := w\<rparr>),
                if opened then Inr () else Inl SerialException)))"

definition transfer :: "'w env \<Rightarrow> bytes \<Rightarrow> ('w, bytes) prog" where
  "transfer E data s =
     (case ser_write E (world s) data of
        (w1, wrote) \<Rightarrow>
          let s1 = emit (Tx data) (s\<lparr>world := w1\<rparr>) in
          if \<not> wrote then (s1, Inl SerialException)
          else
            (case ser_read1 E w1 of
               (w2, LinkLost) \<Rightarrow> (s1\<lparr>world := w2\<rparr>, Inl SerialException)
             | (w2, r) \<Rightarrow>
                 let rx = (case r of Byte c \<Rightarrow> [c] | _ \<Rightarrow> []) in
                 (case ser_read_all E w2 of
                    (w3, None) \<Rightarrow> (s1\<lparr>world := w3\<rparr>, Inl SerialException)
                  | (w3, Some rest) \<Rightarrow>
                      (s1\<lparr>world := w3\<rparr>, Inr (rx @ rstrip (CHR 0x00) rest)))))"

definition get_identity :: "'w env \<Rightarrow> ('w, bytes) prog" where
  "get_identity E = transfer E ''JC_identity''"

definition get_raw_version :: "'w env \<Rightarrow> ('w, bytes) prog" where
  "get_raw_version E = transfer E ''JC_version''"

definition get_version :: "'w env \<Rightarrow> ('w, bytes) prog" where
  "get_version E = bnd (get_raw_version E) (\<lambda>r. ret (drop (length r - 4) r))"

definition get_product :: "'w env \<Rightarrow> ('w, bytes) prog" where
  "get_product E =
     bnd (get_raw_version E) (\<lambda>r.
       let fields = split_on CHR ''_'' r in
       if 2 < length fields then ret (fields ! 2) else raise IndexError)"

subsection \<open>enter_bootloader\<close>

text \<open>The \<open>finally\<close> block: \<open>time.sleep(3); self.connect()\<close>.\<close>

definition settle :: "'w env \<Rightarrow> ('w, unit) prog" where
  "settle E = bnd (sleep E 3) (\<lambda>_. connect E)"

text \<open>
  The \<open>try\<close> statement. \<open>get_raw_version\<close> is called inside it, so a
  \<open>SerialException\<close> of either transfer is caught; any other exception would be raised
  again after the \<open>finally\<close> block, unless that block raises itself.
\<close>

definition reset_exchange :: "'w env \<Rightarrow> ('w, unit) prog" where
  "reset_exchange E s =
     (case bnd (get_raw_version E) (transfer E) s of
        (s1, Inr ack) \<Rightarrow>
          settle E (if ack \<noteq> ''JC_reset'' then emit (Log W_no_reset_ack) s1 else s1)
      | (s1, Inl SerialException) \<Rightarrow> settle E (emit (Log W_reset_disconnect) s1)
      | (s1, Inl e) \<Rightarrow> bnd (settle E) (\<lambda>_. raise e) s1)"

text \<open>
  After the reset the identity is asked for twice: the first reply is stored in the
  variable \<open>identity\<close>, the second one is compared. The text given to \<open>error\<close> is not an
  f-string, so \<open>E_could_not_enter_bootloader\<close> carries no value.
\<close>

definition enter_bootloader :: "'w env \<Rightarrow> ('w, bool) prog" where
  "enter_bootloader E =
     bnd (get_identity E) (\<lambda>identity.
       if identity = ''JC_boot'' then ret True
       else if identity = ''JC_User'' then
         bnd (say I_enter_bootloader) (\<lambda>_.
         bnd (reset_exchange E) (\<lambda>_.
         bnd (get_identity E) (\<lambda>identity.
         bnd (get_identity E) (\<lambda>identity'.
           if identity' = ''JC_boot'' then ret True
           else bnd (say E_could_not_enter_bootloader) (\<lambda>_. ret False)))))
       else bnd (say E_could_not_enter_bootloader) (\<lambda>_. ret False))"

subsection \<open>do_update\<close>

text \<open>\<open>range(0, stop, step)\<close> for a positive step.\<close>

definition py_range :: "nat \<Rightarrow> nat \<Rightarrow> nat list" where
  "py_range stop step = map (\<lambda>i. i * step) [0..<(stop + step - 1) div step]"

text \<open>\<open>f'{n:08x}'\<close>: lower-case hexadecimal, padded with zeros to at least 8 digits.\<close>

definition hex_digit :: "nat \<Rightarrow> char" where
  "hex_digit d = ''0123456789abcdef'' ! d"

fun hex :: "nat \<Rightarrow> string" where
  "hex n = (if n < 16 then [hex_digit n] else hex (n div 16) @ [hex_digit (n mod 16)])"

definition hex08 :: "nat \<Rightarrow> string" where
  "hex08 n = replicate (8 - length (hex n)) CHR ''0'' @ hex n"

text \<open>
  The \<open>for\<close> loop over the chunk offsets. \<open>f\<close> is the open file and \<open>pos\<close> its read
  position, \<open>offsets\<close> the offsets still to come. The loop ends by running out of
  offsets or by \<open>break\<close> (\<open>LoopDone\<close>), or by \<open>return False\<close> (\<open>ReturnFalse\<close>).
\<close>

datatype loop_exit = LoopDone | ReturnFalse

fun upload_loop ::
  "'w env \<Rightarrow> bytes \<Rightarrow> nat \<Rightarrow> nat list \<Rightarrow> nat \<Rightarrow> 'w session \<Rightarrow> 'w session \<times> (exn + loop_exit)" where
  "upload_loop E f fw_size [] pos s = (s, Inr LoopDone)"
| "upload_loop E f fw_size (offset # offsets) pos s =
     (let data = read_at f pos 2048 in
      if data = [] then (s, Inr LoopDone)
      else
        (case transfer E data s of
           (s1, Inr ack) \<Rightarrow>
             if ack \<noteq> ''ack_jcxx'' then (emit (Log E_update_failed) s1, Inr ReturnFalse)
             else upload_loop E f fw_size offsets (pos + length data) s1
         | (s1, Inl SerialException) \<Rightarrow>
             if int offset = int fw_size - 256 then
               upload_loop E f fw_size offsets (pos + length data) (emit (Log W_tail_disconnect) s1)
             else (emit (Log E_update_failed) s1, Inr ReturnFalse)
         | (s1, Inl e) \<Rightarrow> (s1, Inl e)))"

text \<open>
  \<open>do_update\<close> on the contents \<open>f\<close> of the file. The messages of \<open>parse_update\<close> are
  logged first. A product or version that is \<open>None\<close> or empty is false in Python.
  \<open>raw_version\<close> and \<open>identity\<close> are asked for before \<open>enter_bootloader\<close> and not used.
  The \<open>decode\<close> calls inside the f-strings raise before anything is logged or sent;
  encoding the decoded text again gives the same bytes. \<open>self.file.seek(0)\<close> is the
  position 0 the loop starts from.
\<close>

definition do_update :: "'w env \<Rightarrow> bytes \<Rightarrow> ('w, bool) prog" where
  "do_update E f s =
     (case parse_update f of
        (msgs, parsed) \<Rightarrow>
          let s0 = s\<lparr>events := events s @ map Log msgs\<rparr> in
          (case parsed of
             Inl e \<Rightarrow> (s0, Inl e)
           | Inr (Some fw_product, Some fw_version, fw_size) \<Rightarrow>
               if fw_product = [] \<or> fw_version = [] then (s0, Inr False)
               else
                 (bnd (connect E) (\<lambda>_.
                  bnd (get_product E) (\<lambda>product.
                    if fw_product \<noteq> product then
                      (if \<not> decodable fw_product \<or> \<not> decodable product
                       then raise UnicodeDecodeError
                       else bnd (say (E_product_mismatch fw_product product)) (\<lambda>_. ret False))
                    else
                  bnd (get_raw_version E) (\<lambda>raw_version.
                  bnd (get_identity E) (\<lambda>identity.
                  bnd (enter_bootloader E) (\<lambda>entered.
                    if \<not> entered then ret False else
                  bnd (get_version E) (\<lambda>bl_version.
                    if \<not> decodable bl_version then raise UnicodeDecodeError else
                  bnd (say (I_bl_version bl_version)) (\<lambda>_.
                  bnd (get_raw_version E) (\<lambda>bl_raw_version.
                    if \<not> decodable (drop 8 bl_raw_version) then raise UnicodeDecodeError else
                  bnd (transfer E (''0x'' @ hex08 fw_size @ drop 8 bl_raw_version)) (\<lambda>ack.
                    if ack \<noteq> ''update_jcxx'' then
                      bnd (say E_no_update_start_ack) (\<lambda>_. ret False)
                    else
                  bnd (upload_loop E f fw_size (py_range fw_size 2048) 0) (\<lambda>exit.
                    case exit of
                      ReturnFalse \<Rightarrow> ret False
                    | LoopDone \<Rightarrow>
                  bnd (sleep E 3) (\<lambda>_.
                  bnd (connect E) (\<lambda>_.
                  bnd (get_identity E) (\<lambda>identity.
                  bnd (get_version E) (\<lambda>version.
                    if \<not> (identity = ''JC_User'' \<and> version = fw_version) then
                      bnd (say E_update_failed) (\<lambda>_. ret False)
                    else
                      bnd (say I_update_successful) (\<lambda>_. ret True)))))))))))))))) s0
           | Inr _ \<Rightarrow> (s0, Inr False)))"

section \<open>Sample inputs\<close>

text \<open>
  A family of small images for evaluating the definitions: magic, product field
  \<open>JC_T3S\<close> padded with 0xFF, eleven bytes from offset 0x40, the size field, the
  checksum field, and the payload from offset 0x100.
\<close>

definition t3s_field :: bytes where
  "t3s_field = ''JC_T3S'' @ replicate 10 (CHR 0xFF)"

definition image_with :: "bytes \<Rightarrow> bytes \<Rightarrow> bytes \<Rightarrow> bytes \<Rightarrow> bytes \<Rightarrow> bytes" where
  "image_with magic vfield size_field crc payload =
     magic @ replicate 28 (CHR 0x00) @ t3s_field
     @ replicate 16 (CHR 0x00) @ vfield @ replicate 21 (CHR 0x00)
     @ size_field @ crc
     @ replicate 154 (CHR 0x00) @ payload"

definition size4 :: bytes where
  "size4 = [CHR 0x00, CHR 0x00, CHR 0x00, CHR 0x04]"

definition size5 :: bytes where
  "size5 = [CHR 0x00, CHR 0x00, CHR 0x00, CHR 0x05]"

definition crc_abcd :: bytes where
  "crc_abcd = [CHR 0x1D, CHR 0x97]"

definition plain_image :: bytes where
  "plain_image = image_with ''JCID'' ''1234_______'' size4 crc_abcd ''abcd''"

definition vers_image :: bytes where
  "vers_image = image_with ''JCID'' ''version5678'' size4 crc_abcd ''abcd''"

definition bad_size_image :: bytes where
  "bad_size_image = image_with ''JCID'' ''1234_______'' size5 crc_abcd ''abcd''"

definition bad_crc_image :: bytes where
  "bad_crc_image = image_with ''JCID'' ''1234_______'' size4 [CHR 0x1D, CHR 0x98] ''abcd''"

text \<open>
  An image with the magic, the right size and the right checksum whose 4 bytes at
  offset 0x40 are FF FE 31 32, which is not UTF-8.
\<close>

definition bad_ver_field :: bytes where
  "bad_ver_field = [CHR 0xFF, CHR 0xFE, CHR ''1'', CHR ''2''] @ ''_______''"

definition bad_ver_image :: bytes where
  "bad_ver_image = image_with ''JCID'' bad_ver_field size4 crc_abcd ''abcd''"






definition empty_image :: bytes where
  "empty_image =
     image_with ''JCID'' ''1234_______'' [CHR 0x00, CHR 0x00, CHR 0x00, CHR 0x00]
       [CHR 0xFF, CHR 0xFF] []"

text \<open>
  A scripted device: each write takes the next entry of the script, which says what
  arrives in the receive buffer (\<open>Answer\<close>), that nothing arrives (\<open>Silent\<close>), that the
  write fails because the link is gone (\<open>Dropped\<close>), or that the write goes through and
  the link is gone when the reply is read (\<open>Lost\<close>). The second component of the state
  is the receive buffer, \<open>None\<close> while the link is gone. One port with a matching
  serial number is attached and can always be opened.
\<close>

datatype reply = Answer bytes | Silent | Dropped | Lost

type_synonym sim = "reply list \<times> bytes option"

definition scripted :: "sim env" where
  "scripted =
     \<lparr> comports = (\<lambda>w. [(''/dev/ttyACM0'', Some ''JCID_T3S'')]),
       serial_open = (\<lambda>w port. ((fst w, Some []), True)),
       ser_write = (\<lambda>w data.
          case fst w of
            [] \<Rightarrow> (([], Some []), True)
          | Answer bs # script \<Rightarrow> ((script, Some bs), True)
          | Silent # script \<Rightarrow> ((script, Some []), True)
          | Dropped # script \<Rightarrow> ((script, None), False)
          | Lost # script \<Rightarrow> ((script, None), True)),
       ser_read1 = (\<lambda>w.
          case snd w of
            None \<Rightarrow> (w, LinkLost)
          | Some [] \<Rightarrow> (w, TimedOut)
          | Some (c # cs) \<Rightarrow> ((fst w, Some cs), Byte c)),
       ser_read_all = (\<lambda>w.
          case snd w of
            None \<Rightarrow> (w, None)
          | Some bs \<Rightarrow> ((fst w, Some []), Some bs)),
       time_sleep = (\<lambda>w n. w) \<rparr>"

definition start :: "reply list \<Rightarrow> sim session" where
  "start script = \<lparr> world = (script, Some []), events = [] \<rparr>"

section \<open>Image validation\<close>

subsection \<open>Evaluating the samples\<close>

lemma crc16_byte_unfold:
  "crc16_byte c b =
     crc16_shift (crc16_shift (crc16_shift (crc16_shift
       (crc16_shift (crc16_shift (crc16_shift (crc16_shift (c XOR of_char b))))))))"
  by (simp add: crc16_byte_def eval_nat_numeral)

text \<open>The check value of this CRC, 0x4B37 for the digits 1 to 9.\<close>

lemma crc16fn_check: "crc16fn ''123456789'' = 0x4B37"
  by (simp add: crc16fn_def crc16_byte_unfold crc16_shift_def)

lemma crc16fn_abcd: "crc16fn ''abcd'' = 0x1D97"
  by (simp add: crc16fn_def crc16_byte_unfold crc16_shift_def)

lemma image_with_fields:
  assumes "length magic = 4" "length vfield = 11" "length size_field = 4" "length crc = 2"
  shows "read_at (image_with magic vfield size_field crc payload) 0 4 = magic"
    and "read_at (image_with magic vfield size_field crc payload) 0x20 16 = t3s_field"
    and "read_at (image_with magic vfield size_field crc payload) 0x40 4 = take 4 vfield"
    and "read_at (image_with magic vfield size_field crc payload) 0x47 4 = drop 7 vfield"
    and "read_at (image_with magic vfield size_field crc payload) 0x60 4 = size_field"
    and "read_at (image_with magic vfield size_field crc payload) 0x64 2 = crc"
    and "drop 0x100 (image_with magic vfield size_field crc payload) = payload"
    and "length (image_with magic vfield size_field crc payload) = 0x100 + length payload"
  using assms by (simp_all add: image_with_def read_at_def t3s_field_def)

lemma sample_product: "last (split_on CHR ''_'' (rstrip (CHR 0xFF) t3s_field)) = ''T3S''"
  by code_simp

lemma sample_sizes [simp]:
  "length size4 = 4" "length size5 = 4" "length crc_abcd = 2"
  "from_bytes_big size4 = 4" "from_bytes_big size5 = 5" "from_bytes_big crc_abcd = 0x1D97"
  "from_bytes_big [CHR 0x1D, CHR 0x98] = 0x1D98"
  by (simp_all add: size4_def size5_def crc_abcd_def from_bytes_big_def)

lemma sample_decodable [simp]:
  "decodable ''T3S''" "decodable ''T3M''" "decodable ''1234''" "decodable ''5678''"
  by (simp_all add: decodable_def)

lemma parse_plain_image:
  "parse_update plain_image =
     ([I_update ''T3S'' ''1234'' 260], Inr (Some ''T3S'', Some ''1234'', 260))"
  by (simp add: parse_update_def plain_image_def image_with_fields sample_product
      crc16fn_abcd Let_def)

lemma parse_vers_image:
  "parse_update vers_image =
     ([I_update ''T3S'' ''5678'' 260], Inr (Some ''T3S'', Some ''5678'', 260))"
  by (simp add: parse_update_def vers_image_def image_with_fields sample_product
      crc16fn_abcd Let_def)

subsection \<open>Size and checksum\<close>

text \<open>
  Claim C1. \<open>parse_update\<close> returns a product and a version only if the length of the
  file is the big-endian value of the 4 bytes at offset 0x60 plus 0x100 and the CRC-16
  of the bytes from offset 0x100 on is the big-endian value of the 2 bytes at offset
  0x64. A file that violates one of the two conditions gets the triple
  \<open>(None, None, 0)\<close>, no product and no version; a file that carries the magic
  \<open>JCID\<close> gets it with the error of the first violated condition, the size being
  checked before the checksum. (A file without the magic is turned away before either
  check, with the error for a wrong file.)
\<close>

theorem parse_update_validation:
  "(snd (parse_update f) = Inr (Some p, Some v, n) \<longrightarrow>
      length f = from_bytes_big (read_at f 0x60 4) + 0x100
      \<and> crc16fn (drop 0x100 f) = from_bytes_big (read_at f 0x64 2))
   \<and> (length f \<noteq> from_bytes_big (read_at f 0x60 4) + 0x100
        \<or> crc16fn (drop 0x100 f) \<noteq> from_bytes_big (read_at f 0x64 2) \<longrightarrow>
      snd (parse_update f) = Inr (None, None, 0))
   \<and> (read_at f 0 4 = ''JCID''
        \<and> length f \<noteq> from_bytes_big (read_at f 0x60 4) + 0x100 \<longrightarrow>
      fst (parse_update f) = [E_bad_file_size])
   \<and> (read_at f 0 4 = ''JCID''
        \<and> length f = from_bytes_big (read_at f 0x60 4) + 0x100
        \<and> crc16fn (drop 0x100 f) \<noteq> from_bytes_big (read_at f 0x64 2) \<longrightarrow>
      fst (parse_update f) =
        [E_checksum_mismatch (from_bytes_big (read_at f 0x64 2)) (crc16fn (drop 0x100 f))])"
  by (simp add: parse_update_def Let_def)

theorem parse_update_validation_witness:
  "snd (parse_update plain_image) = Inr (Some ''T3S'', Some ''1234'', 260)
   \<and> length plain_image = from_bytes_big (read_at plain_image 0x60 4) + 0x100
   \<and> crc16fn (drop 0x100 plain_image) = from_bytes_big (read_at plain_image 0x64 2)
   \<and> read_at bad_size_image 0 4 = ''JCID''
   \<and> length bad_size_image \<noteq> from_bytes_big (read_at bad_size_image 0x60 4) + 0x100
   \<and> parse_update bad_size_image = ([E_bad_file_size], Inr (None, None, 0))
   \<and> read_at bad_crc_image 0 4 = ''JCID''
   \<and> length bad_crc_image = from_bytes_big (read_at bad_crc_image 0x60 4) + 0x100
   \<and> crc16fn (drop 0x100 bad_crc_image) \<noteq> from_bytes_big (read_at bad_crc_image 0x64 2)
   \<and> parse_update bad_crc_image =
        ([E_checksum_mismatch 0x1D98 0x1D97], Inr (None, None, 0))"
proof -
  have ok: "snd (parse_update plain_image) = Inr (Some ''T3S'', Some ''1234'', 260)"
    by (simp add: parse_plain_image)
  have bad1: "read_at bad_size_image 0 4 = ''JCID''"
    "length bad_size_image \<noteq> from_bytes_big (read_at bad_size_image 0x60 4) + 0x100"
    by (simp_all add: bad_size_image_def image_with_fields)
  have bad2: "read_at bad_crc_image 0 4 = ''JCID''"
    "length bad_crc_image = from_bytes_big (read_at bad_crc_image 0x60 4) + 0x100"
    "crc16fn (drop 0x100 bad_crc_image) \<noteq> from_bytes_big (read_at bad_crc_image 0x64 2)"
    by (simp_all add: bad_crc_image_def image_with_fields crc16fn_abcd)
  have sums: "crc16fn (drop 0x100 bad_crc_image) = 0x1D97"
    "from_bytes_big (read_at bad_crc_image 0x64 2) = 0x1D98"
    by (simp_all add: bad_crc_image_def image_with_fields crc16fn_abcd)
  show ?thesis
    using parse_update_validation [of plain_image "''T3S''" "''1234''" 260]
      parse_update_validation [of bad_size_image] parse_update_validation [of bad_crc_image]
      ok bad1 bad2 sums
    by (simp add: prod_eq_iff)
qed

subsection \<open>The version field\<close>

text \<open>
  Whenever \<open>parse_update\<close> returns a version, it is the 4 bytes at offset 0x47 if the
  4 bytes at offset 0x40 are the token \<open>vers\<close>, and the 4 bytes at offset 0x40
  themselves otherwise. It does return that version for every image with the magic,
  the right size and the right checksum whose product and version can be decoded for
  the log line.
\<close>

lemma version_field_relocation:
  "(snd (parse_update f) = Inr (Some p, Some v, n) \<longrightarrow>
      v = (if read_at f 0x40 4 = ''vers'' then read_at f 0x47 4 else read_at f 0x40 4))
   \<and> (read_at f 0 4 = ''JCID''
        \<and> length f = from_bytes_big (read_at f 0x60 4) + 0x100
        \<and> crc16fn (drop 0x100 f) = from_bytes_big (read_at f 0x64 2)
        \<and> decodable (last (split_on CHR ''_'' (rstrip (CHR 0xFF) (read_at f 0x20 16))))
        \<and> decodable (if read_at f 0x40 4 = ''vers'' then read_at f 0x47 4
                      else read_at f 0x40 4) \<longrightarrow>
      snd (parse_update f) =
        Inr (Some (last (split_on CHR ''_'' (rstrip (CHR 0xFF) (read_at f 0x20 16)))),
             Some (if read_at f 0x40 4 = ''vers'' then read_at f 0x47 4 else read_at f 0x40 4),
             length f))"
  by (simp add: parse_update_def Let_def)

lemma version_field_relocation_samples:
  "read_at vers_image 0x40 4 = ''vers'' \<and> read_at vers_image 0x47 4 = ''5678''
   \<and> snd (parse_update vers_image) = Inr (Some ''T3S'', Some ''5678'', 260)
   \<and> read_at plain_image 0x40 4 = ''1234''
   \<and> snd (parse_update plain_image) = Inr (Some ''T3S'', Some ''1234'', 260)"
proof -
  have f1: "read_at vers_image 0 4 = ''JCID''" "read_at vers_image 0x40 4 = ''vers''"
    "read_at vers_image 0x47 4 = ''5678''"
    "length vers_image = from_bytes_big (read_at vers_image 0x60 4) + 0x100"
    "crc16fn (drop 0x100 vers_image) = from_bytes_big (read_at vers_image 0x64 2)"
    "last (split_on CHR ''_'' (rstrip (CHR 0xFF) (read_at vers_image 0x20 16))) = ''T3S''"
    "length vers_image = 260"
    by (simp_all add: vers_image_def image_with_fields crc16fn_abcd sample_product)
  have f2: "read_at plain_image 0 4 = ''JCID''" "read_at plain_image 0x40 4 = ''1234''"
    "length plain_image = from_bytes_big (read_at plain_image 0x60 4) + 0x100"
    "crc16fn (drop 0x100 plain_image) = from_bytes_big (read_at plain_image 0x64 2)"
    "last (split_on CHR ''_'' (rstrip (CHR 0xFF) (read_at plain_image 0x20 16))) = ''T3S''"
    "length plain_image = 260"
    by (simp_all add: plain_image_def image_with_fields crc16fn_abcd sample_product)
  have "snd (parse_update vers_image) = Inr (Some ''T3S'', Some ''5678'', 260)"
    using version_field_relocation [of vers_image "''T3S''" "''5678''" 260] f1 by simp
  moreover have "snd (parse_update plain_image) = Inr (Some ''T3S'', Some ''1234'', 260)"
    using version_field_relocation [of plain_image "''T3S''" "''1234''" 260] f2 by simp
  ultimately show ?thesis
    using f1 f2 by simp
qed

text \<open>
  Claim C3. The claim holds of every image whose product and version decode, as shown
  above, and not of every image: the f-string given to \<open>info\<close> decodes the version
  before \<open>parse_update\<close> returns it. For the image below, which passes the magic, size
  and checksum checks and has the bytes FF FE 31 32 at offset 0x40, \<open>parse_update\<close>
  raises \<open>UnicodeDecodeError\<close> and returns no version, where the claim has these 4
  bytes returned.
\<close>

theorem parse_update_undecodable_version:
  "read_at bad_ver_image 0 4 = ''JCID''
   \<and> length bad_ver_image = from_bytes_big (read_at bad_ver_image 0x60 4) + 0x100
   \<and> crc16fn (drop 0x100 bad_ver_image) = from_bytes_big (read_at bad_ver_image 0x64 2)
   \<and> read_at bad_ver_image 0x40 4 = [CHR 0xFF, CHR 0xFE, CHR ''1'', CHR ''2'']
   \<and> read_at bad_ver_image 0x40 4 \<noteq> ''vers''
   \<and> parse_update bad_ver_image = ([], Inl UnicodeDecodeError)"
proof -
  have fields: "read_at bad_ver_image 0 4 = ''JCID''"
    "length bad_ver_image = from_bytes_big (read_at bad_ver_image 0x60 4) + 0x100"
    "crc16fn (drop 0x100 bad_ver_image) = from_bytes_big (read_at bad_ver_image 0x64 2)"
    "read_at bad_ver_image 0x40 4 = [CHR 0xFF, CHR 0xFE, CHR ''1'', CHR ''2'']"
    by (simp_all add: bad_ver_image_def bad_ver_field_def image_with_fields crc16fn_abcd)
  have "\<not> decodable [CHR 0xFF, CHR 0xFE, CHR ''1'', CHR ''2'']"
    by (simp add: decodable_def)
  with fields have "parse_update bad_ver_image = ([], Inl UnicodeDecodeError)"
    by (simp add: parse_update_def Let_def)
  with fields show ?thesis
    by simp
qed

theorem parse_update_undecodable_version_witness:
  "\<not> decodable (read_at bad_ver_image 0x40 4)
   \<and> snd (parse_update bad_ver_image) = Inl UnicodeDecodeError"
  using parse_update_undecodable_version by (simp add: decodable_def)

section \<open>The session\<close>

subsection \<open>What a transfer records, and the scripted device\<close>

lemma transfer_events:
  "transfer E data s = (s', r) \<Longrightarrow> events s' = events s @ [Tx data]"
  by (auto simp: transfer_def emit_def Let_def
      split: prod.splits if_splits read1.splits option.splits)

lemma scripted_answer:
  "transfer scripted data \<lparr>world = (Answer (c # bs) # script, buf), events = evs\<rparr> =
     (\<lparr>world = (script, Some []), events = evs @ [Tx data]\<rparr>,
      Inr (c # rstrip (CHR 0x00) bs))"
  by (simp add: transfer_def scripted_def emit_def)

lemma scripted_silent:
  "transfer scripted data \<lparr>world = (Silent # script, buf), events = evs\<rparr> =
     (\<lparr>world = (script, Some []), events = evs @ [Tx data]\<rparr>, Inr [])"
  by (simp add: transfer_def scripted_def emit_def rstrip_def)

lemma scripted_dropped:
  "transfer scripted data \<lparr>world = (Dropped # script, buf), events = evs\<rparr> =
     (\<lparr>world = (script, None), events = evs @ [Tx data]\<rparr>, Inl SerialException)"
  by (simp add: transfer_def scripted_def emit_def)

lemma scripted_lost:
  "transfer scripted data \<lparr>world = (Lost # script, buf), events = evs\<rparr> =
     (\<lparr>world = (script, None), events = evs @ [Tx data]\<rparr>, Inl SerialException)"
  by (simp add: transfer_def scripted_def emit_def)

lemma scripted_connect:
  "connect scripted \<lparr>world = (script, buf), events = evs\<rparr> =
     (\<lparr>world = (script, Some []), events = evs @ [Connect ''/dev/ttyACM0'']\<rparr>, Inr ())"
  by (simp add: connect_def get_port_def scripted_def emit_def)

lemma scripted_sleep:
  "sleep scripted n \<lparr>world = w, events = evs\<rparr> =
     (\<lparr>world = w, events = evs @ [Sleep n]\<rparr>, Inr ())"
  by (simp add: sleep_def scripted_def emit_def)

lemmas scripted_run = scripted_answer scripted_silent scripted_dropped scripted_lost
  scripted_connect scripted_sleep





subsection \<open>transfer\<close>




text \<open>
  Claim C7. The first byte, read on its own, is not stripped: a response of three
  null bytes comes back as one null byte, where stripping the response gives the
  empty byte string.
\<close>

theorem transfer_all_null_response:
  "transfer scripted ''JC_identity'' (start [Answer [CHR 0x00, CHR 0x00, CHR 0x00]]) =
     (\<lparr>world = ([], Some []), events = [Tx ''JC_identity'']\<rparr>, Inr [CHR 0x00])
   \<and> rstrip (CHR 0x00) [CHR 0x00, CHR 0x00, CHR 0x00] = []"
  by (simp add: start_def scripted_answer rstrip_def)

text \<open>
  What \<open>transfer\<close> returns for a response of at least one byte, and when that is the
  stripped response: unless the response is made of null bytes only.
\<close>

lemma transfer_strips_after_first_byte:
  assumes "ser_write E (world s) data = (w1, True)" "ser_read1 E w1 = (w2, Byte c)"
    "ser_read_all E w2 = (w3, Some rest)"
  shows "snd (transfer E data s) = Inr (c # rstrip (CHR 0x00) rest)"
  using assms by (simp add: transfer_def Let_def)

lemma rstrip_Cons:
  "rstrip z (c # rest) = (if c = z \<and> rstrip z rest = [] then [] else c # rstrip z rest)"
  by (auto simp: rstrip_def dropWhile_append)

lemma transfer_strips_response:
  assumes "ser_write E (world s) data = (w1, True)" "ser_read1 E w1 = (w2, Byte c)"
    "ser_read_all E w2 = (w3, Some rest)" "rstrip (CHR 0x00) (c # rest) \<noteq> []"
  shows "snd (transfer E data s) = Inr (rstrip (CHR 0x00) (c # rest))"
  using assms transfer_strips_after_first_byte [OF assms(1-3)]
  by (simp add: rstrip_Cons split: if_splits)

subsection \<open>enter_bootloader\<close>

text \<open>
  Claim C5. When the reply to the identity query is \<open>JC_boot\<close>, \<open>enter_bootloader\<close>
  returns \<open>True\<close> in the state the query left: the identity request is the only thing
  written, nothing is slept and no port is opened.
\<close>

theorem enter_bootloader_idempotent:
  "get_identity E s = (s', Inr ''JC_boot'') \<Longrightarrow>
   enter_bootloader E s = (s', Inr True) \<and> events s' = events s @ [Tx ''JC_identity'']"
  using transfer_events [of E "''JC_identity''" s s']
  by (simp add: enter_bootloader_def get_identity_def bnd_def ret_def)

theorem enter_bootloader_idempotent_witness:
  "get_identity scripted (start [Answer (''JC_boot'' @ [CHR 0x00, CHR 0x00])]) =
     (\<lparr>world = ([], Some []), events = [Tx ''JC_identity'']\<rparr>, Inr ''JC_boot'')
   \<and> enter_bootloader scripted (start [Answer (''JC_boot'' @ [CHR 0x00, CHR 0x00])]) =
     (\<lparr>world = ([], Some []), events = [Tx ''JC_identity'']\<rparr>, Inr True)"
proof -
  have h: "get_identity scripted (start [Answer (''JC_boot'' @ [CHR 0x00, CHR 0x00])]) =
     (\<lparr>world = ([], Some []), events = [Tx ''JC_identity'']\<rparr>, Inr ''JC_boot'')"
    by (simp add: get_identity_def start_def scripted_answer rstrip_def)
  show ?thesis
    using enter_bootloader_idempotent [OF h] h by simp
qed

text \<open>
  Claim C10. When the reply to the identity query is neither \<open>JC_boot\<close> nor \<open>JC_User\<close>
  (the empty reply of a timeout included), \<open>enter_bootloader\<close> logs its error and
  returns \<open>False\<close>: the identity request is the only thing written, nothing is slept
  and no port is opened.
\<close>

theorem enter_bootloader_unrecognized:
  "get_identity E s = (s', Inr identity) \<Longrightarrow> identity \<noteq> ''JC_boot'' \<Longrightarrow>
   identity \<noteq> ''JC_User'' \<Longrightarrow>
   enter_bootloader E s = (emit (Log E_could_not_enter_bootloader) s', Inr False)
   \<and> events (emit (Log E_could_not_enter_bootloader) s') =
       events s @ [Tx ''JC_identity'', Log E_could_not_enter_bootloader]"
  using transfer_events [of E "''JC_identity''" s s']
  by (simp add: enter_bootloader_def get_identity_def bnd_def ret_def say_def emit_def)

theorem enter_bootloader_unrecognized_witness:
  "get_identity scripted (start [Silent]) =
     (\<lparr>world = ([], Some []), events = [Tx ''JC_identity'']\<rparr>, Inr [])
   \<and> enter_bootloader scripted (start [Silent]) =
     (\<lparr>world = ([], Some []), events = [Tx ''JC_identity'', Log E_could_not_enter_bootloader]\<rparr>,
      Inr False)"
proof -
  have h: "get_identity scripted (start [Silent]) =
     (\<lparr>world = ([], Some []), events = [Tx ''JC_identity'']\<rparr>, Inr [])"
    by (simp add: get_identity_def start_def scripted_silent)
  show ?thesis
    using enter_bootloader_unrecognized [OF h] h by (simp add: emit_def)
qed

text \<open>
  Claim C9. A device in user mode that acknowledges the reset, answers \<open>JC_boot\<close> to
  the first identity query after the reconnection and does not answer the second one:
  two identity requests are written after the reconnection, the reply to the second
  decides, \<open>enter_bootloader\<close> returns \<open>False\<close>, and the error message carries no
  identity.
\<close>

theorem enter_bootloader_second_query_decides:
  "enter_bootloader scripted
     (start [Answer ''JC_User'', Answer ''JC_ver_T3S_1234'', Answer ''JC_reset'',
             Answer ''JC_boot'', Silent]) =
     (\<lparr>world = ([], Some []),
       events = [Tx ''JC_identity'', Log I_enter_bootloader, Tx ''JC_version'',
                 Tx ''JC_ver_T3S_1234'', Sleep 3, Connect ''/dev/ttyACM0'',
                 Tx ''JC_identity'', Tx ''JC_identity'', Log E_could_not_enter_bootloader]\<rparr>,
      Inr False)"
  by (simp add: enter_bootloader_def reset_exchange_def settle_def get_identity_def
      get_raw_version_def bnd_def ret_def say_def emit_def start_def scripted_run rstrip_def)


subsection \<open>do_update: the product check\<close>




text \<open>An image whose product is empty is turned away before the port is opened.\<close>

lemma empty_product_returns_False:
  assumes "parse_update f = (msgs, Inr (Some [], Some v, n))"
  shows "do_update E f s = (s\<lparr>events := events s @ map Log msgs\<rparr>, Inr False)"
  using assms by (simp add: do_update_def)

subsection \<open>do_update: the upload loop\<close>







lemma py_range_2048: "py_range S 2048 = map (\<lambda>i. i * 2048) [0..<(S + 2047) div 2048]"
  by (simp add: py_range_def add.commute)

lemma chunk_count_qr:
  fixes q r :: nat
  assumes "r < 2048"
  shows "(q * 2048 + r + 2047) div 2048 = (if r = 0 then q else Suc q)"
  using assms by (auto intro!: div_nat_eqI)

lemma chunk_count:
  fixes S :: nat
  shows "(S + 2047) div 2048 = (if S mod 2048 = 0 then S div 2048 else Suc (S div 2048))"
  using chunk_count_qr [of "S mod 2048" "S div 2048"] by simp

lemma py_range_bound: "((S::nat) + 2047) div 2048 * 2048 < S + 2048"
proof -
  define q r where "q = S div 2048" and "r = S mod 2048"
  have S: "S = q * 2048 + r" and r: "r < 2048"
    by (simp_all add: q_def r_def)
  have n: "(S + 2047) div 2048 = (if r = 0 then q else Suc q)"
    by (simp add: chunk_count q_def r_def)
  show ?thesis
    unfolding n using S r by simp
qed












text \<open>
  In the range of \<open>do_update\<close> the offset \<open>S - 256\<close> can only be the last one, so the
  loop ends after a tolerated disconnect.
\<close>

lemma tolerated_offset_is_last:
  assumes "py_range S 2048 = before @ offset # rest" and "int offset = int S - 256"
  shows "rest = []"
proof (rule ccontr)
  assume "rest \<noteq> []"
  let ?n = "(S + 2047) div 2048"
  let ?k = "length before"
  have range: "map (\<lambda>i. i * 2048) [0..<?n] = before @ offset # rest"
    using assms(1) by (simp add: py_range_2048)
  then have "length (map (\<lambda>i. i * 2048) [0..<?n]) = length (before @ offset # rest)"
    by (simp only:)
  with \<open>rest \<noteq> []\<close> have n: "?k + 2 \<le> ?n"
    by (cases rest) simp_all
  from range have "map (\<lambda>i. i * 2048) [0..<?n] ! ?k = (before @ offset # rest) ! ?k"
    by (simp only:)
  with n have offset: "offset = ?k * 2048"
    by simp
  from n have "(?k + 2) * 2048 \<le> ?n * 2048"
    by (simp only: mult_le_mono1)
  with py_range_bound [of S] have "?k * 2048 + 2048 < S"
    by simp
  with offset assms(2) show False
    by simp
qed




subsection \<open>Two whole runs\<close>

text \<open>
  The image with the empty payload has a single chunk, at offset \<open>0 = 256 - 256\<close>. On a
  device already in the bootloader that drops the link at this chunk the update goes
  on to the verification and succeeds; on one that does not acknowledge the chunk the
  update returns \<open>False\<close> and nothing more is written.
\<close>

lemma parse_empty_image:
  "parse_update empty_image =
     ([I_update ''T3S'' ''1234'' 256], Inr (Some ''T3S'', Some ''1234'', 256))"
  by (simp add: parse_update_def empty_image_def image_with_fields sample_product
      crc16fn_def from_bytes_big_def Let_def)

lemma empty_image_reads:
  "read_at empty_image 0 2048 = empty_image" "length empty_image = 256" "empty_image \<noteq> []"
  by (auto simp: empty_image_def read_at_def image_with_def t3s_field_def)

lemma hex08_256: "hex08 256 = ''00000100''"
  by code_simp

lemma py_range_256: "py_range 256 2048 = [0]"
  by (simp add: py_range_def)

lemma do_update_tail_disconnect_run:
  "do_update scripted empty_image
     (start [Answer ''JC_ver_T3S_1234'', Answer ''JC_ver_T3S_1234'', Answer ''JC_boot'',
             Answer ''JC_boot'', Answer ''JC_ver_T3S_0001'', Answer ''JC_ver_T3S_0001'',
             Answer ''update_jcxx'', Dropped, Answer ''JC_User'',
             Answer ''JC_ver_T3S_1234'']) =
     (\<lparr>world = ([], Some []),
       events = [Log (I_update ''T3S'' ''1234'' 256), Connect ''/dev/ttyACM0'',
                 Tx ''JC_version'', Tx ''JC_version'', Tx ''JC_identity'', Tx ''JC_identity'',
                 Tx ''JC_version'', Log (I_bl_version ''0001''), Tx ''JC_version'',
                 Tx ''0x000001003S_0001'', Tx empty_image, Log W_tail_disconnect,
                 Sleep 3, Connect ''/dev/ttyACM0'', Tx ''JC_identity'', Tx ''JC_version'',
                 Log I_update_successful]\<rparr>,
      Inr True)"
  by (simp add: do_update_def parse_empty_image enter_bootloader_def get_product_def
      get_version_def get_identity_def get_raw_version_def bnd_def ret_def raise_def say_def
      emit_def start_def scripted_run rstrip_def hex08_256 py_range_256 empty_image_reads
      decodable_def Let_def)

lemma do_update_chunk_failure_run:
  "do_update scripted empty_image
     (start [Answer ''JC_ver_T3S_1234'', Answer ''JC_ver_T3S_1234'', Answer ''JC_boot'',
             Answer ''JC_boot'', Answer ''JC_ver_T3S_0001'', Answer ''JC_ver_T3S_0001'',
             Answer ''update_jcxx'', Silent, Answer ''JC_User'',
             Answer ''JC_ver_T3S_1234'']) =
     (\<lparr>world = ([Answer ''JC_User'', Answer ''JC_ver_T3S_1234''], Some []),
       events = [Log (I_update ''T3S'' ''1234'' 256), Connect ''/dev/ttyACM0'',
                 Tx ''JC_version'', Tx ''JC_version'', Tx ''JC_identity'', Tx ''JC_identity'',
                 Tx ''JC_version'', Log (I_bl_version ''0001''), Tx ''JC_version'',
                 Tx ''0x000001003S_0001'', Tx empty_image, Log E_update_failed]\<rparr>,
      Inr False)"
  by (simp add: do_update_def parse_empty_image enter_bootloader_def get_product_def
      get_version_def get_identity_def get_raw_version_def bnd_def ret_def raise_def say_def
      emit_def start_def scripted_run rstrip_def hex08_256 py_range_256 empty_image_reads
      decodable_def Let_def)


end
